theory Spec2Isabelle
  imports Complex_Main
begin

section \<open>Python strings\<close>

text \<open>
  A Python \<open>str\<close> is modelled as a \<open>string\<close>; a \<open>char\<close> stands for the code point of
  the same number, so the model covers the code points below 256. The functions below
  are the \<open>str\<close> methods the program calls, restricted to the way it calls them.
\<close>

abbreviation nl :: char where
  "nl \<equiv> CHR 0x0A"

text \<open>\<open>str.isspace\<close> on one code point below 256: TAB..CR, FS..US, space, NEL and NBSP.\<close>

definition isspace :: "char \<Rightarrow> bool" where
  "isspace c =
     (let n = (of_char c :: nat)
      in (9 \<le> n \<and> n \<le> 13) \<or> (28 \<le> n \<and> n \<le> 32) \<or> n = 133 \<or> n = 160)"

text \<open>\<open>s.strip()\<close>: leading and trailing whitespace removed.\<close>

definition strip :: "string \<Rightarrow> string" where
  "strip s = rev (dropWhile isspace (rev (dropWhile isspace s)))"

text \<open>\<open>s.lower()\<close>: A..Z and the Latin-1 capitals (not the multiplication sign) move up by 32.\<close>

definition lower_char :: "char \<Rightarrow> char" where
  "lower_char c =
     (let n = (of_char c :: nat)
      in if (65 \<le> n \<and> n \<le> 90) \<or> (192 \<le> n \<and> n \<le> 222 \<and> n \<noteq> 215)
         then char_of (n + 32) else c)"

definition lower :: "string \<Rightarrow> string" where
  "lower s = map lower_char s"

text \<open>\<open>s.startswith(p)\<close>.\<close>

definition startswith :: "string \<Rightarrow> string \<Rightarrow> bool" where
  "startswith s p = (take (length p) s = p)"

text \<open>\<open>p in s\<close> for two strings: \<open>p\<close> occurs in \<open>s\<close> as a contiguous run.\<close>

fun str_in :: "string \<Rightarrow> string \<Rightarrow> bool" where
  "str_in p [] = (p = [])"
| "str_in p (c # cs) = (startswith (c # cs) p \<or> str_in p cs)"

text \<open>\<open>s.split('\n')\<close>: never empty, \<open>''.split('\n') == ['']\<close>.\<close>

fun split_nl :: "string \<Rightarrow> string list" where
  "split_nl [] = [[]]"
| "split_nl (c # cs) =
     (if c = nl then [] # split_nl cs
      else (case split_nl cs of
              [] \<Rightarrow> [[c]]
            | l # ls \<Rightarrow> (c # l) # ls))"

text \<open>\<open>'\n'.join(lines)\<close>.\<close>

fun join_nl :: "string list \<Rightarrow> string" where
  "join_nl [] = []"
| "join_nl [l] = l"
| "join_nl (l # m # ls) = l @ nl # join_nl (m # ls)"

section \<open>\<open>clean_code_artifacts\<close>\<close>

text \<open>
  The two fence literals of the source. The opening-fence test and the filter of stray
  fences both use a literal of six backquotes followed by \<open>go\<close>; the closing-fence test
  uses three backquotes.
\<close>

definition fence3 :: string where
  "fence3 = replicate 3 (CHR 0x60)"

definition fence6go :: string where
  "fence6go = replicate 6 (CHR 0x60) @ ''go''"

text \<open>
  The first loop: \<open>start_idx\<close> stays 0 unless some line, stripped, starts with the
  six-backquote literal (start after it) or with \<open>package \<close> (start at it); the first
  such line decides.
\<close>

fun find_start :: "string list \<Rightarrow> nat \<Rightarrow> nat" where
  "find_start [] i = 0"
| "find_start (line # lines) i =
     (let stripped = strip line
      in if startswith stripped fence6go then i + 1
         else if startswith stripped ''package '' then i
         else find_start lines (i + 1))"

text \<open>
  The second loop, \<open>for i in range(len(lines) - 1, start_idx - 1, -1)\<close>: the argument
  \<open>Suc i\<close> says that index \<open>i\<close> is visited next. \<open>end_idx\<close> stays \<open>len(lines)\<close> unless a
  line at or after \<open>start_idx\<close>, stripped, starts with three backquotes; the last such
  line decides.
\<close>

fun find_end :: "string list \<Rightarrow> nat \<Rightarrow> nat \<Rightarrow> nat" where
  "find_end lines start_idx 0 = length lines"
| "find_end lines start_idx (Suc i) =
     (if i < start_idx then length lines
      else if startswith (strip (lines ! i)) fence3 then i
      else find_end lines start_idx i)"

definition clean_code_artifacts :: "string \<Rightarrow> string" where
  "clean_code_artifacts response =
     (if response = [] \<or> strip response = [] then response
      else
        let lines = split_nl response;
            start_idx = find_start lines 0;
            end_idx = find_end lines start_idx (length lines);
            code_lines = drop start_idx (take end_idx lines);
            cleaned = filter (\<lambda>line. strip line \<notin> set [fence3, fence6go]) code_lines;
            result = strip (join_nl cleaned)
        in if result \<noteq> [] then result else strip response)"

section \<open>\<open>count_error_lines\<close>\<close>

text \<open>The test of the loop body that decides whether a stripped sub-line is counted.\<close>

definition looks_like_error :: "string \<Rightarrow> bool" where
  "looks_like_error line =
     (str_in ''.go:'' line \<or> str_in ''undefined'' line \<or> str_in ''not used'' line
      \<or> str_in ''error'' (lower line))"

fun count_loop :: "string list \<Rightarrow> nat \<Rightarrow> nat" where
  "count_loop [] error_count = error_count"
| "count_loop (l # ls) error_count =
     (let line = strip l
      in if line = [] then count_loop ls error_count
         else if startswith line ''#'' then count_loop ls error_count
         else if looks_like_error line then count_loop ls (error_count + 1)
         else count_loop ls error_count)"

definition count_error_lines :: "string \<Rightarrow> nat" where
  "count_error_lines issue_text =
     (if issue_text = [] then 0
      else max (count_loop (split_nl (strip issue_text)) 0) 1)"

section \<open>Values and exceptions of the Python run time\<close>

text \<open>
  What \<open>json.loads\<close> returns: \<open>None\<close>, a bool, an int, a float, a str, a list or a dict.
  A dict is an association list with distinct keys, read with \<open>map_of\<close>.
\<close>

datatype json =
    JNull
  | JBool bool
  | JInt int
  | JFloat real
  | JStr string
  | JArr "json list"
  | JObj "(string \<times> json) list"

datatype exn =
    TypeError
  | AttributeError
  | KeyError
  | NameError
  | JSONDecodeError
  | TimeoutExpired
  | OSError
  | OtherException string

text \<open>Truth value of an object, as \<open>if x\<close> and \<open>not x\<close> test it.\<close>

fun truthy :: "json \<Rightarrow> bool" where
  "truthy JNull = False"
| "truthy (JBool b) = b"
| "truthy (JInt i) = (i \<noteq> 0)"
| "truthy (JFloat x) = (x \<noteq> 0)"
| "truthy (JStr s) = (s \<noteq> [])"
| "truthy (JArr xs) = (xs \<noteq> [])"
| "truthy (JObj kvs) = (kvs \<noteq> [])"

text \<open>\<open>k in x\<close> for a string \<open>k\<close>: a key of a dict, an element of a list, a substring of a
  str; the other objects are not iterable.\<close>

fun py_contains :: "string \<Rightarrow> json \<Rightarrow> exn + bool" where
  "py_contains k (JObj kvs) = Inr (map_of kvs k \<noteq> None)"
| "py_contains k (JArr xs) = Inr (JStr k \<in> set xs)"
| "py_contains k (JStr s) = Inr (str_in k s)"
| "py_contains k _ = Inl TypeError"

text \<open>\<open>x[k]\<close> for a string \<open>k\<close>: only a dict can be indexed by a string.\<close>

fun py_getitem :: "json \<Rightarrow> string \<Rightarrow> exn + json" where
  "py_getitem (JObj kvs) k = (case map_of kvs k of None \<Rightarrow> Inl KeyError | Some v \<Rightarrow> Inr v)"
| "py_getitem _ k = Inl TypeError"

text \<open>\<open>x.get(k, d)\<close>: only a dict has the method.\<close>

fun py_get :: "json \<Rightarrow> string \<Rightarrow> json \<Rightarrow> exn + json" where
  "py_get (JObj kvs) k d = Inr (case map_of kvs k of None \<Rightarrow> d | Some v \<Rightarrow> v)"
| "py_get _ k d = Inl AttributeError"

text \<open>\<open>for issue in x\<close>: the elements of a list, the keys of a dict, the characters of a
  str; the other objects are not iterable.\<close>

fun py_iter :: "json \<Rightarrow> exn + json list" where
  "py_iter (JArr xs) = Inr xs"
| "py_iter (JObj kvs) = Inr (map (\<lambda>kv. JStr (fst kv)) kvs)"
| "py_iter (JStr s) = Inr (map (\<lambda>c. JStr [c]) s)"
| "py_iter _ = Inl TypeError"

text \<open>
  \<open>count_error_lines(issue_text)\<close> as the validator calls it, on whatever the \<open>Text\<close>
  field holds: a falsy object returns 0 at the first test, a str is counted, and any
  other object has no \<open>strip\<close>.
\<close>

fun count_error_lines_py :: "json \<Rightarrow> exn + nat" where
  "count_error_lines_py (JStr s) = Inr (count_error_lines s)"
| "count_error_lines_py v = (if truthy v then Inl AttributeError else Inr 0)"

text \<open>\<open>[line.strip() for line in issue_text.split('\n') if line.strip()]\<close>: only a str
  has \<open>split\<close>.\<close>

fun py_error_lines :: "json \<Rightarrow> exn + string list" where
  "py_error_lines (JStr s) = Inr (filter (\<lambda>l. l \<noteq> []) (map strip (split_nl s)))"
| "py_error_lines _ = Inl AttributeError"

section \<open>\<open>StaticCodeValidator\<close>\<close>

text \<open>
  The entries of the \<open>errors\<close> list, kept structured instead of rendered by the f-strings:
  \<open>"Empty code"\<close>, \<open>"Line {loc.get('Line', '?')}: {error_line} [{linter}]"\<close>,
  \<open>"Validation failed: exit code {returncode}"\<close> and \<open>"Validation error: {str(e)}"\<close>.
\<close>

datatype error_msg =
    EmptyCode
  | LintLine json string json
  | ValidationFailed int
  | ValidationError exn

text \<open>The result dictionary; \<open>stage_details\<close> holds \<open>stage_details['golangci']['errors']\<close>.\<close>

record validation_result =
  quality_score :: real
  has_errors :: bool
  errors :: "error_msg list"
  golangci_lint_errors :: nat
  total_errors :: nat
  validation_passed :: bool
  model_name :: string
  fixed_code :: "string option"
  was_fixed :: bool
  stage_details :: "error_msg list"

text \<open>
  What the world answers to one validation: \<open>tempfile.mkdtemp\<close>, which runs before the
  \<open>try\<close>, raises; or something inside the \<open>try\<close> up to and including \<open>subprocess.run\<close>
  raises (writing the file, creating the script, the 650 s timeout); or the script
  completes with its stdout, stderr and return code.
\<close>

datatype run_result =
    MkdtempRaised exn
  | RunRaised exn
  | Completed string string int

definition initial_result :: "string \<Rightarrow> validation_result" where
  "initial_result mn =
     \<lparr>quality_score = 0.0, has_errors = False, errors = [], golangci_lint_errors = 0,
      total_errors = 0, validation_passed = False, model_name = mn, fixed_code = None,
      was_fixed = False, stage_details = []\<rparr>"

text \<open>
  The inner loop over the lines of one issue. The dictionary is mutated in place, so
  the lines recorded before an exception stay in it: the loop returns the dictionary
  together with the exception, if any.
\<close>

fun error_lines_loop ::
  "json \<Rightarrow> json \<Rightarrow> string list \<Rightarrow> validation_result \<Rightarrow> validation_result \<times> exn option" where
  "error_lines_loop loc linter [] vr = (vr, None)"
| "error_lines_loop loc linter (error_line # rest) vr =
     (if startswith error_line ''#'' then error_lines_loop loc linter rest vr
      else (case py_get loc ''Line'' (JStr ''?'') of
              Inl e \<Rightarrow> (vr, Some e)
            | Inr line_no \<Rightarrow>
                error_lines_loop loc linter rest
                  (vr\<lparr>errors := errors vr @ [LintLine line_no error_line linter],
                      stage_details := stage_details vr @ [LintLine line_no error_line linter]\<rparr>)))"

text \<open>Step 6, \<open>for issue in lint_issues\<close>, with the running \<open>golangci_lint_errors\<close>.\<close>

fun issues_loop ::
  "json list \<Rightarrow> nat \<Rightarrow> validation_result \<Rightarrow> validation_result \<times> (exn + nat)" where
  "issues_loop [] n vr = (vr, Inr n)"
| "issues_loop (issue # rest) n vr =
     (case py_get issue ''Text'' (JStr []) of
        Inl e \<Rightarrow> (vr, Inl e)
      | Inr issue_text \<Rightarrow>
     (case count_error_lines_py issue_text of
        Inl e \<Rightarrow> (vr, Inl e)
      | Inr error_line_count \<Rightarrow>
     (case py_get issue ''Pos'' (JObj []) of
        Inl e \<Rightarrow> (vr, Inl e)
      | Inr loc \<Rightarrow>
     (case py_get issue ''FromLinter'' (JStr ''unknown'') of
        Inl e \<Rightarrow> (vr, Inl e)
      | Inr linter \<Rightarrow>
     (case py_error_lines issue_text of
        Inl e \<Rightarrow> (vr, Inl e)
      | Inr error_lines \<Rightarrow>
     (case error_lines_loop loc linter error_lines vr of
        (vr', Some e) \<Rightarrow> (vr', Inl e)
      | (vr', None) \<Rightarrow> issues_loop rest (n + error_line_count) vr'))))))"

text \<open>The parsed output: \<open>None\<close> and \<open>{}\<close> mean no issue, as does a missing or falsy
  \<open>Issues\<close> field.\<close>

definition count_issues :: "json \<Rightarrow> validation_result \<Rightarrow> validation_result \<times> (exn + nat)" where
  "count_issues lint_data vr =
     (if lint_data = JNull \<or> lint_data = JObj [] then (vr, Inr 0)
      else (case py_contains ''Issues'' lint_data of
              Inl e \<Rightarrow> (vr, Inl e)
            | Inr False \<Rightarrow> (vr, Inr 0)
            | Inr True \<Rightarrow>
                (case py_getitem lint_data ''Issues'' of
                   Inl e \<Rightarrow> (vr, Inl e)
                 | Inr v \<Rightarrow>
                     if \<not> truthy v then (vr, Inr 0)
                     else (case py_iter v of
                             Inl e \<Rightarrow> (vr, Inl e)
                           | Inr lint_issues \<Rightarrow> issues_loop lint_issues 0 vr))))"

text \<open>
  Steps 5 to 7, from the completed run to \<open>golangci_lint_errors\<close>. \<open>loads\<close> is
  \<open>json.loads\<close>; its \<open>JSONDecodeError\<close> is caught here and counts as no issue, any other
  exception goes on to the outer handler.
\<close>

definition lint_output ::
  "(string \<Rightarrow> exn + json) \<Rightarrow> string \<Rightarrow> int \<Rightarrow> validation_result
     \<Rightarrow> validation_result \<times> (exn + nat)" where
  "lint_output loads out rc vr =
     (if out \<noteq> [] \<and> strip out \<noteq> [] then
        (let stdout_clean = strip out
         in if stdout_clean = [] \<or> stdout_clean = ''null'' \<or> stdout_clean = ''{}''
            then (vr, Inr 0)
            else (case loads stdout_clean of
                    Inl e \<Rightarrow> if e = JSONDecodeError then (vr, Inr 0) else (vr, Inl e)
                  | Inr lint_data \<Rightarrow> count_issues lint_data vr))
      else if rc = 0 then (vr, Inr 0)
      else (vr\<lparr>errors := errors vr @ [ValidationFailed rc], has_errors := True\<rparr>, Inr 1))"

text \<open>Step 8.\<close>

definition compile_results :: "validation_result \<Rightarrow> nat \<Rightarrow> string \<Rightarrow> validation_result" where
  "compile_results vr n code =
     (let quality = max 0.0 (1.0 - (real n * 0.08))
      in vr\<lparr>golangci_lint_errors := n, total_errors := n, fixed_code := Some code,
            quality_score := quality, has_errors := (n > 0),
            validation_passed := (quality \<ge> 0.5)\<rparr>)"

text \<open>Step 9, the handler of \<open>except Exception\<close>.\<close>

definition on_exception :: "validation_result \<Rightarrow> exn \<Rightarrow> string \<Rightarrow> validation_result" where
  "on_exception vr e code =
     vr\<lparr>errors := errors vr @ [ValidationError e], has_errors := True,
        fixed_code := Some code\<rparr>"

text \<open>
  \<open>validate_and_fix_go_code\<close>. \<open>tool\<close> is the world's answer to validating \<open>code\<close> under
  \<open>model_name\<close>. The result is \<open>Inl\<close> where the call raises to its caller.
\<close>

definition validate_and_fix_go_code ::
  "(string \<Rightarrow> exn + json) \<Rightarrow> (string \<Rightarrow> string \<Rightarrow> run_result) \<Rightarrow> string \<Rightarrow> string
     \<Rightarrow> exn + validation_result" where
  "validate_and_fix_go_code loads tool code mn =
     (let vr0 = initial_result mn
      in if code = [] \<or> strip code = [] then
           Inr (vr0\<lparr>errors := errors vr0 @ [EmptyCode], has_errors := True,
                    fixed_code := Some code\<rparr>)
         else (case tool mn code of
                 MkdtempRaised e \<Rightarrow> Inl e
               | RunRaised e \<Rightarrow> Inr (on_exception vr0 e code)
               | Completed out err rc \<Rightarrow>
                   (case lint_output loads out rc vr0 of
                      (vr, Inr n) \<Rightarrow> Inr (compile_results vr n code)
                    | (vr, Inl e) \<Rightarrow> Inr (on_exception vr e code))))"

text \<open>The report for a language that is not validated.\<close>

definition unsupported_result :: "string \<Rightarrow> string \<Rightarrow> validation_result" where
  "unsupported_result code mn =
     \<lparr>quality_score = 0.5, has_errors = False, errors = [], golangci_lint_errors = 0,
      total_errors = 0, validation_passed = True, model_name = mn, fixed_code = Some code,
      was_fixed = False, stage_details = []\<rparr>"

definition validate_code ::
  "(string \<Rightarrow> exn + json) \<Rightarrow> (string \<Rightarrow> string \<Rightarrow> run_result) \<Rightarrow> string \<Rightarrow> string \<Rightarrow> string
     \<Rightarrow> exn + validation_result" where
  "validate_code loads tool code language mn =
     (let language =
            (if language = ''auto'' \<and> str_in ''package '' code \<and> str_in ''func '' code
             then ''go'' else language)
      in if language = ''go'' then validate_and_fix_go_code loads tool code mn
         else Inr (unsupported_result code mn))"

subsection \<open>Sample answers of the world\<close>

text \<open>Concrete \<open>json.loads\<close> results and tool runs, used to evaluate the validator.\<close>

definition no_json :: "string \<Rightarrow> exn + json" where
  "no_json s = Inl JSONDecodeError"

definition one_issue_json :: "string \<Rightarrow> exn + json" where
  "one_issue_json s =
     Inr (JObj [(''Issues'',
            JArr [JObj [(''Text'', JStr ''main.go:3:2: undefined: x''),
                        (''Pos'', JObj [(''Line'', JInt 3)]),
                        (''FromLinter'', JStr ''typecheck'')]])])"

definition null_text_json :: "string \<Rightarrow> exn + json" where
  "null_text_json s =
     Inr (JObj [(''Issues'',
            JArr [JObj [(''Text'', JStr ''main.go:3:2: undefined: x''),
                        (''Pos'', JObj [(''Line'', JInt 3)])],
                  JObj [(''Text'', JNull)]])])"

definition tool_prints :: "string \<Rightarrow> string \<Rightarrow> string \<Rightarrow> run_result" where
  "tool_prints out mn code = Completed out [] 0"

definition tool_exits :: "int \<Rightarrow> string \<Rightarrow> string \<Rightarrow> run_result" where
  "tool_exits rc mn code = Completed [] [] rc"

definition tool_ends :: "string \<Rightarrow> int \<Rightarrow> string \<Rightarrow> string \<Rightarrow> run_result" where
  "tool_ends out rc mn code = Completed out [] rc"

definition tool_times_out :: "string \<Rightarrow> string \<Rightarrow> run_result" where
  "tool_times_out mn code = RunRaised TimeoutExpired"

section \<open>\<open>IterativeGenerator\<close>\<close>

text \<open>
  One answer of \<open>client.chat.completions.create\<close>, read the way the loop reads it:
  \<open>choice.message.content\<close> (which may be \<open>None\<close>), \<open>choice.finish_reason\<close> and
  \<open>completion.usage.total_tokens\<close> (\<open>None\<close> when \<open>usage\<close> is absent).
\<close>

record completion =
  content :: "string option"
  finish_reason :: "string option"
  usage_total_tokens :: "nat option"

text \<open>The metadata dictionary; \<open>gen_error\<close> is its \<open>error\<close> key, absent until an exception.\<close>

record gen_metadata =
  iterations :: int
  finish_reasons :: "string option list"
  total_tokens :: nat
  was_truncated :: bool
  gen_error :: "exn option"

text \<open>
  The backend is a state machine: a call takes the backend's state and the two prompts,
  and returns the completion, or the exception raised by the call or by reading
  \<open>choices\<close>, together with the next state. The token limit and the sampling parameters
  are the same in every call of one generation and are part of the client.
\<close>

type_synonym 's chat_client = "'s \<Rightarrow> string \<Rightarrow> string \<Rightarrow> (exn + completion) \<times> 's"

definition continuation_system :: string where
  "continuation_system =
     ''You are continuing code generation. Continue EXACTLY from where the code was cut off. Do not repeat.''"

definition continuation_user :: "string \<Rightarrow> string" where
  "continuation_user full_response =
     ''Previous code (truncated at end):'' @ [nl, nl] @ full_response @ [nl, nl]
     @ ''CONTINUE the code from the exact point where it was cut off. Start with the incomplete line/function and complete it. Do not add explanations.''"

text \<open>
  The \<open>while iteration < self.max_iterations\<close> loop. Adding \<open>None\<close> to \<open>full_response\<close>
  and reading \<open>total_tokens\<close> of an absent \<open>usage\<close> raise inside the \<open>try\<close>, after the
  assignments that precede them.
\<close>

function gen_loop ::
  "'s chat_client \<Rightarrow> int \<Rightarrow> int \<Rightarrow> string \<Rightarrow> gen_metadata \<Rightarrow> string \<Rightarrow> string \<Rightarrow> 's
     \<Rightarrow> string \<times> gen_metadata \<times> 's" where
  "gen_loop client max_iterations iteration full_response metadata current_system
            current_user bs =
     (if iteration < max_iterations then
        (case client bs current_system current_user of
           (Inl e, bs') \<Rightarrow> (full_response, metadata\<lparr>gen_error := Some e\<rparr>, bs')
         | (Inr c, bs') \<Rightarrow>
             (case content c of
                None \<Rightarrow> (full_response, metadata\<lparr>gen_error := Some TypeError\<rparr>, bs')
              | Some chunk \<Rightarrow>
                  (case usage_total_tokens c of
                     None \<Rightarrow>
                       (full_response @ chunk,
                        metadata\<lparr>iterations := iteration + 1,
                                 finish_reasons := finish_reasons metadata @ [finish_reason c],
                                 gen_error := Some AttributeError\<rparr>,
                        bs')
                   | Some tokens \<Rightarrow>
                       if finish_reason c = Some ''stop'' then
                         (full_response @ chunk,
                          metadata\<lparr>iterations := iteration + 1,
                                   finish_reasons := finish_reasons metadata @ [finish_reason c],
                                   total_tokens := total_tokens metadata + tokens\<rparr>,
                          bs')
                       else if finish_reason c = Some ''length'' then
                         gen_loop client max_iterations (iteration + 1) (full_response @ chunk)
                           (metadata\<lparr>iterations := iteration + 1,
                                     finish_reasons := finish_reasons metadata @ [finish_reason c],
                                     total_tokens := total_tokens metadata + tokens,
                                     was_truncated := True\<rparr>)
                           continuation_system (continuation_user (full_response @ chunk)) bs'
                       else
                         (full_response @ chunk,
                          metadata\<lparr>iterations := iteration + 1,
                                   finish_reasons := finish_reasons metadata @ [finish_reason c],
                                   total_tokens := total_tokens metadata + tokens\<rparr>,
                          bs'))))
      else (full_response, metadata, bs))"
  by pat_completeness auto
termination
  by (relation "measure (\<lambda>(client, max_iterations, iteration, rest).
                           nat (max_iterations - iteration))") auto

declare gen_loop.simps [simp del]

definition initial_metadata :: gen_metadata where
  "initial_metadata =
     \<lparr>iterations = 0, finish_reasons = [], total_tokens = 0, was_truncated = False,
      gen_error = None\<rparr>"

definition generate_with_continuation ::
  "'s chat_client \<Rightarrow> int \<Rightarrow> string \<Rightarrow> string \<Rightarrow> 's \<Rightarrow> (string \<times> gen_metadata) \<times> 's" where
  "generate_with_continuation client max_iterations system_prompt user_prompt bs =
     (case gen_loop client max_iterations 0 [] initial_metadata system_prompt user_prompt bs of
        (full_response, metadata, bs') \<Rightarrow> ((clean_code_artifacts full_response, metadata), bs'))"

text \<open>
  A backend that counts the calls it receives: its state is the number of calls so far,
  and \<open>reply k\<close> is its answer to call number \<open>k\<close>.
\<close>

definition counted :: "(nat \<Rightarrow> string \<Rightarrow> string \<Rightarrow> exn + completion) \<Rightarrow> nat chat_client" where
  "counted reply calls current_system current_user =
     (reply (Suc calls) current_system current_user, Suc calls)"

text \<open>The scripted backend of the truncation scenario: \<open>length\<close> before call \<open>b\<close>, \<open>stop\<close> from
  call \<open>b\<close> on.\<close>

definition truncating :: "nat \<Rightarrow> nat \<Rightarrow> string \<Rightarrow> string \<Rightarrow> exn + completion" where
  "truncating b k current_system current_user =
     Inr \<lparr>content = Some ''x'',
          finish_reason = Some (if k < b then ''length'' else ''stop''),
          usage_total_tokens = Some 1\<rparr>"

section \<open>Candidates and the combined score\<close>


text \<open>
  The metadata of one result: the dictionary with \<open>generation\<close>, \<open>static_validation\<close> and
  \<open>context_size\<close> of a query that went through, or the dictionary that holds only
  \<open>error\<close>.
\<close>

datatype result_metadata =
    Answered gen_metadata validation_result nat
  | Failed string

text \<open>One entry of the list that \<open>query_all_models\<close> returns.\<close>

record candidate =
  model :: string
  response :: string
  duration :: real
  response_length :: nat
  metadata :: result_metadata

text \<open>\<open>r.get('metadata', {}).get('static_validation', {})\<close>, \<open>None\<close> for the empty dictionary.\<close>

definition static_validation :: "candidate \<Rightarrow> validation_result option" where
  "static_validation r =
     (case metadata r of Answered g sv n \<Rightarrow> Some sv | Failed msg \<Rightarrow> None)"

definition get_combined_score :: "candidate \<Rightarrow> real" where
  "get_combined_score r =
     (let quality = (case static_validation r of None \<Rightarrow> 0.0 | Some sv \<Rightarrow> quality_score sv);
          time_score = max 0.0 (1.0 - (duration r / 30));
          completeness = min (real (response_length r) / 3000) 1.0;
          combined = (quality * 0.70) + (time_score * 0.10) + (completeness * 0.20)
      in combined)"

section \<open>\<open>ErrorsRefinementAndSelfCorrection\<close>\<close>











text \<open>What one pass through the loop body does: leave the loop, or go on.\<close>

datatype ('a, 'b) step = Break 'a | Continue 'b





subsection \<open>A sample refinement run\<close>

text \<open>
  The scenario with issue counts 5, 2, 2: the tool prints the model name it was run
  under, \<open>json.loads\<close> turns the names of the three refinement runs into reports with 5,
  2 and 2 issues, and the model always answers with the same Go text.
\<close>

definition issues_json :: "nat \<Rightarrow> json" where
  "issues_json n =
     JObj [(''Issues'', JArr (replicate n (JObj [(''Text'', JStr ''undefined: x'')])))]"

text \<open>A \<open>json.loads\<close> that reads every output as a report with \<open>n\<close> issues.\<close>

definition counted_loads :: "nat \<Rightarrow> string \<Rightarrow> exn + json" where
  "counted_loads n s = Inr (issues_json n)"









section \<open>\<open>MultiModelRAGBuilder\<close>: one query per backend, then the ranking\<close>













text \<open>What the readers of a result see of its report: \<open>.get('quality_score', 0.0)\<close> and
  \<open>.get('has_errors')\<close> on the report or on the empty dictionary.\<close>

definition candidate_quality :: "candidate \<Rightarrow> real" where
  "candidate_quality r =
     (case static_validation r of None \<Rightarrow> 0.0 | Some sv \<Rightarrow> quality_score sv)"


subsection \<open>A sample fan-out\<close>





text \<open>A candidate whose report the validator produced from a lint run with one issue.\<close>

definition scored_candidate :: candidate where
  "scored_candidate =
     \<lparr>model = ''m'', response = ''package main func main() {}'', duration = 15,
      response_length = 1500,
      metadata = Answered initial_metadata
                   (projr (validate_code one_issue_json (tool_prints ''<lint report>'')
                             ''package main func main() {}'' ''auto'' ''m''))
                   0\<rparr>"

section \<open>Facts about the validator\<close>

lemma passed_iff: "(0.5 \<le> max 0.0 (1.0 - (real n * 0.08))) \<longleftrightarrow> n \<le> 6"
  by (simp add: max_def) linarith

lemma strip_nonempty: "strip s \<noteq> [] \<Longrightarrow> s \<noteq> []"
  by (auto simp: strip_def)

text \<open>Parsing the tool's output only ever appends to the error lists (and, in one
  branch that also returns a count, sets \<open>has_errors\<close>).\<close>

lemma error_lines_loop_keeps:
  "error_lines_loop loc linter ls vr = (vr', x) \<Longrightarrow>
     quality_score vr' = quality_score vr \<and> total_errors vr' = total_errors vr
     \<and> validation_passed vr' = validation_passed vr \<and> has_errors vr' = has_errors vr"
  by (induction ls arbitrary: vr) (auto split: if_splits sum.splits)

lemma issues_loop_keeps:
  "issues_loop is n vr = (vr', x) \<Longrightarrow>
     quality_score vr' = quality_score vr \<and> total_errors vr' = total_errors vr
     \<and> validation_passed vr' = validation_passed vr \<and> has_errors vr' = has_errors vr"
proof (induction "is" arbitrary: n vr)
  case Nil
  then show ?case by simp
next
  case (Cons a "is")
  then show ?case
    by (auto split: sum.splits prod.splits option.splits dest!: error_lines_loop_keeps)
qed

lemma count_issues_keeps:
  "count_issues d vr = (vr', x) \<Longrightarrow>
     quality_score vr' = quality_score vr \<and> total_errors vr' = total_errors vr
     \<and> validation_passed vr' = validation_passed vr \<and> has_errors vr' = has_errors vr"
  unfolding count_issues_def
  by (auto split: if_splits sum.splits bool.splits dest!: issues_loop_keeps)

lemma lint_output_raise_keeps:
  "lint_output loads out rc vr = (vr', Inl e) \<Longrightarrow>
     quality_score vr' = quality_score vr \<and> total_errors vr' = total_errors vr
     \<and> validation_passed vr' = validation_passed vr"
  unfolding lint_output_def
  by (auto simp: Let_def split: if_splits sum.splits dest!: count_issues_keeps)

text \<open>The shape of every report: either step 8 compiled it from a count, or it is one
  of the two reports that keep the initial score.\<close>

lemma validate_cases:
  assumes "validate_and_fix_go_code loads tool code mn = Inr r"
  shows "(\<exists>vr n. r = compile_results vr n code)
       \<or> (has_errors r \<and> quality_score r = 0 \<and> total_errors r = 0 \<and> \<not> validation_passed r)"
proof (cases "code = [] \<or> strip code = []")
  case True
  with assms show ?thesis
    by (auto simp: validate_and_fix_go_code_def initial_result_def)
next
  case False
  show ?thesis
  proof (cases "tool mn code")
    case (MkdtempRaised e)
    with assms False show ?thesis by (simp add: validate_and_fix_go_code_def)
  next
    case (RunRaised e)
    with assms False show ?thesis
      by (auto simp: validate_and_fix_go_code_def on_exception_def initial_result_def)
  next
    case (Completed out err rc)
    obtain vr x where lo: "lint_output loads out rc (initial_result mn) = (vr, x)"
      by (cases "lint_output loads out rc (initial_result mn)")
    show ?thesis
    proof (cases x)
      case (Inr n)
      with assms False Completed lo show ?thesis
        by (auto simp: validate_and_fix_go_code_def)
    next
      case (Inl e)
      with lo have k: "quality_score vr = 0 \<and> total_errors vr = 0 \<and> \<not> validation_passed vr"
        by (auto dest!: lint_output_raise_keeps simp: initial_result_def)
      from assms False Completed lo Inl have "r = on_exception vr e code"
        by (auto simp: validate_and_fix_go_code_def)
      with k show ?thesis by (simp add: on_exception_def)
    qed
  qed
qed

text \<open>Every issue count is reached: a report of \<open>n\<close> issues with one countable line each
  gives the count \<open>n\<close>.\<close>

lemma one_issue_step:
  "issues_loop (JObj [(''Text'', JStr ''undefined: x'')] # rest) k vr =
     issues_loop rest (k + 1)
       (vr\<lparr>errors := errors vr @ [LintLine (JStr ''?'') ''undefined: x'' (JStr ''unknown'')],
           stage_details := stage_details vr
              @ [LintLine (JStr ''?'') ''undefined: x'' (JStr ''unknown'')]\<rparr>)"
proof -
  have c: "count_error_lines ''undefined: x'' = 1" by code_simp
  have l: "py_error_lines (JStr ''undefined: x'') = Inr [''undefined: x'']"
    by code_simp
  have s: "\<not> startswith ''undefined: x'' ''#''" by code_simp
  show ?thesis
    by (simp add: c l s del: py_error_lines.simps)
qed

lemma issues_loop_replicate:
  "\<exists>vr'. issues_loop (replicate n (JObj [(''Text'', JStr ''undefined: x'')])) k vr
           = (vr', Inr (k + n))"
proof (induction n arbitrary: k vr)
  case 0
  show ?case by simp
next
  case (Suc n)
  have "issues_loop (replicate (Suc n) (JObj [(''Text'', JStr ''undefined: x'')])) k vr =
     issues_loop (replicate n (JObj [(''Text'', JStr ''undefined: x'')])) (k + 1)
       (vr\<lparr>errors := errors vr @ [LintLine (JStr ''?'') ''undefined: x'' (JStr ''unknown'')],
           stage_details := stage_details vr
              @ [LintLine (JStr ''?'') ''undefined: x'' (JStr ''unknown'')]\<rparr>)"
    by (simp only: replicate_Suc one_issue_step)
  with Suc [of "k + 1"] show ?case by simp
qed

lemma every_count_reached:
  assumes "strip code \<noteq> []"
  shows "\<exists>r. validate_and_fix_go_code (counted_loads n) (tool_prints ''<lint report>'') code mn
              = Inr r \<and> total_errors r = n"
proof -
  have s: "strip ''<lint report>'' = ''<lint report>''" by code_simp
  have "\<exists>vr. lint_output (counted_loads n) ''<lint report>'' 0 (initial_result mn) = (vr, Inr n)"
  proof (cases n)
    case 0
    then show ?thesis
      by (simp add: lint_output_def s counted_loads_def issues_json_def count_issues_def)
  next
    case (Suc m)
    from issues_loop_replicate [of n 0 "initial_result mn"] Suc
    show ?thesis
      by (simp add: lint_output_def s counted_loads_def issues_json_def count_issues_def)
  qed
  then obtain vr where "lint_output (counted_loads n) ''<lint report>'' 0 (initial_result mn) = (vr, Inr n)"
    by blast
  with assms strip_nonempty [OF assms] show ?thesis
    by (simp add: validate_and_fix_go_code_def tool_prints_def compile_results_def Let_def)
qed

section \<open>The validator's report\<close>

text \<open>
  C1. When the validator reaches step 8 with an issue count \<open>n\<close> (the code is not blank,
  the tool run completed, and reading its output gave \<open>n\<close>), the report has
  \<open>quality_score = max(0.0, 1.0 - 0.08 * n)\<close>, which does not increase with \<open>n\<close> and is 0.0
  from \<open>n = 13\<close> on, and \<open>validation_passed\<close> holds exactly when \<open>quality_score \<ge> 0.5\<close>,
  that is exactly when \<open>n \<le> 6\<close>. Scores are real numbers here.
\<close>

theorem quality_score_formula:
  assumes "strip code \<noteq> []"
    and "tool mn code = Completed out err rc"
    and "snd (lint_output loads out rc (initial_result mn)) = Inr n"
  shows "\<exists>r. validate_and_fix_go_code loads tool code mn = Inr r
           \<and> total_errors r = n
           \<and> quality_score r = max 0.0 (1.0 - 0.08 * real n)
           \<and> (\<forall>m\<le>n. quality_score r \<le> max 0.0 (1.0 - 0.08 * real m))
           \<and> (13 \<le> n \<longrightarrow> quality_score r = 0.0)
           \<and> (validation_passed r \<longleftrightarrow> quality_score r \<ge> 0.5)
           \<and> (validation_passed r \<longleftrightarrow> n \<le> 6)"
proof -
  obtain vr where lo: "lint_output loads out rc (initial_result mn) = (vr, Inr n)"
    using assms(3) by (cases "lint_output loads out rc (initial_result mn)") auto
  from assms(1) have ne: "code \<noteq> []" by (rule strip_nonempty)
  have v: "validate_and_fix_go_code loads tool code mn = Inr (compile_results vr n code)"
    using assms(1,2) ne lo by (simp add: validate_and_fix_go_code_def)
  have p: "(0.5 \<le> max 0.0 (1.0 - (real n * 0.08))) \<longleftrightarrow> n \<le> 6" by (rule passed_iff)
  show ?thesis
    unfolding v using p
    by (auto simp: compile_results_def Let_def max_def)
qed

theorem quality_score_formula_witness:
  "\<exists>r. validate_and_fix_go_code one_issue_json (tool_prints ''<lint report>'')
          ''package main'' ''m'' = Inr r
     \<and> total_errors r = 1 \<and> quality_score r = 0.92 \<and> validation_passed r"
proof -
  have a: "strip ''package main'' \<noteq> []" by code_simp
  have b: "tool_prints ''<lint report>'' ''m'' ''package main''
             = Completed ''<lint report>'' [] 0"
    by (simp add: tool_prints_def)
  have c: "snd (lint_output one_issue_json ''<lint report>'' 0 (initial_result ''m''))
             = Inr 1"
    by code_simp
  show ?thesis
    using quality_score_formula
            [where tool = "tool_prints ''<lint report>''" and mn = "''m''", OF a b c]
    by auto
qed

text \<open>
  C2, as the code has it. A report whose total issue count is zero has
  \<open>quality_score = 1.0\<close> when \<open>has_errors\<close> is false; when \<open>has_errors\<close> is true (the
  empty-code report and the report of the exception handler) it keeps the initial
  \<open>quality_score = 0.0\<close> and has not passed.
\<close>

theorem zero_issues_score:
  assumes "validate_and_fix_go_code loads tool code mn = Inr r"
    and "total_errors r = 0"
  shows "(\<not> has_errors r \<longrightarrow> quality_score r = 1.0)
       \<and> (has_errors r \<longrightarrow> quality_score r = 0.0 \<and> \<not> validation_passed r)"
  using validate_cases [OF assms(1)] assms(2)
  by (auto simp: compile_results_def Let_def)

theorem zero_issues_score_witness:
  "validate_and_fix_go_code no_json (tool_prints ''garbage'') ''package main'' ''m''
     = Inr (compile_results (initial_result ''m'') 0 ''package main'')
   \<and> quality_score (compile_results (initial_result ''m'') 0 ''package main'') = 1.0"
proof -
  have a: "validate_and_fix_go_code no_json (tool_prints ''garbage'') ''package main'' ''m''
     = Inr (compile_results (initial_result ''m'') 0 ''package main'')"
    by code_simp
  have b: "total_errors (compile_results (initial_result ''m'') 0 ''package main'') = 0"
    by (simp add: compile_results_def)
  have c: "\<not> has_errors (compile_results (initial_result ''m'') 0 ''package main'')"
    by (simp add: compile_results_def)
  show ?thesis
    using zero_issues_score [OF a b] a c by simp
qed

text \<open>
  C2 as stated fails on the empty-code path: the report for the empty string has a total
  issue count of zero and the score 0.0.
\<close>

theorem zero_issues_score_counterexample:
  "\<not> isl (validate_and_fix_go_code no_json (tool_exits 0) [] ''m'')
   \<and> total_errors (projr (validate_and_fix_go_code no_json (tool_exits 0) [] ''m'')) = 0
   \<and> quality_score (projr (validate_and_fix_go_code no_json (tool_exits 0) [] ''m'')) \<noteq> 1.0"
  by (simp add: validate_and_fix_go_code_def initial_result_def)

text \<open>
  C3, as the code has it. Once the temporary directory exists (\<open>tempfile.mkdtemp\<close> runs
  before the \<open>try\<close>), the validator returns a report and never raises. What the report
  says depends on how the run ended.
  \<^item> A Python exception raised by the run itself (the 650 s timeout of \<open>subprocess.run\<close>,
    a failure to write the file or to start the script): \<open>has_errors\<close> and exactly one
    synthetic issue.
  \<^item> An exception while the output is read: \<open>has_errors\<close> and the synthetic issue after
    the lint lines recorded so far.
  \<^item> A completed process with blank stdout and a non-zero exit code: \<open>has_errors\<close>, one
    synthetic issue and the count 1.
  \<^item> A completed process whose stdout is not blank and is \<open>null\<close>, \<open>{}\<close> or text that
    \<open>json.loads\<close> rejects, whatever its exit code, and a completed process with blank
    stdout and exit code 0: no failure is reported; \<open>has_errors\<close> is false, no issue is
    listed and the score is 1.0.
\<close>

theorem validator_failure_reports:
  "((\<forall>e. tool mn code \<noteq> MkdtempRaised e)
      \<longrightarrow> (\<exists>r. validate_and_fix_go_code loads tool code mn = Inr r))
   \<and> (strip code \<noteq> [] \<and> tool mn code = RunRaised e
      \<longrightarrow> (\<exists>r. validate_and_fix_go_code loads tool code mn = Inr r
             \<and> has_errors r \<and> errors r = [ValidationError e]))
   \<and> (strip code \<noteq> [] \<and> tool mn code = Completed out err rc
        \<and> lint_output loads out rc (initial_result mn) = (vr, Inl e)
      \<longrightarrow> (\<exists>r. validate_and_fix_go_code loads tool code mn = Inr r
             \<and> has_errors r \<and> errors r = errors vr @ [ValidationError e]))
   \<and> (strip code \<noteq> [] \<and> tool mn code = Completed out err rc \<and> strip out = [] \<and> rc \<noteq> 0
      \<longrightarrow> (\<exists>r. validate_and_fix_go_code loads tool code mn = Inr r
             \<and> has_errors r \<and> errors r = [ValidationFailed rc] \<and> total_errors r = 1))
   \<and> (strip code \<noteq> [] \<and> tool mn code = Completed out err rc \<and> strip out \<noteq> []
        \<and> (strip out = ''null'' \<or> strip out = ''{}''
             \<or> loads (strip out) = Inl JSONDecodeError)
      \<longrightarrow> (\<exists>r. validate_and_fix_go_code loads tool code mn = Inr r
             \<and> \<not> has_errors r \<and> errors r = [] \<and> total_errors r = 0
             \<and> quality_score r = 1.0 \<and> validation_passed r))
   \<and> (strip code \<noteq> [] \<and> tool mn code = Completed out err rc \<and> strip out = [] \<and> rc = 0
      \<longrightarrow> (\<exists>r. validate_and_fix_go_code loads tool code mn = Inr r
             \<and> \<not> has_errors r \<and> errors r = [] \<and> total_errors r = 0
             \<and> quality_score r = 1.0 \<and> validation_passed r))"
proof (intro conjI impI)
  assume "\<forall>e. tool mn code \<noteq> MkdtempRaised e"
  then show "\<exists>r. validate_and_fix_go_code loads tool code mn = Inr r"
    by (cases "tool mn code")
       (auto simp: validate_and_fix_go_code_def Let_def split: prod.splits sum.splits)
next
  assume "strip code \<noteq> [] \<and> tool mn code = RunRaised e"
  then show "\<exists>r. validate_and_fix_go_code loads tool code mn = Inr r
               \<and> has_errors r \<and> errors r = [ValidationError e]"
    using strip_nonempty [of code]
    by (simp add: validate_and_fix_go_code_def on_exception_def initial_result_def)
next
  assume "strip code \<noteq> [] \<and> tool mn code = Completed out err rc
            \<and> lint_output loads out rc (initial_result mn) = (vr, Inl e)"
  then show "\<exists>r. validate_and_fix_go_code loads tool code mn = Inr r
               \<and> has_errors r \<and> errors r = errors vr @ [ValidationError e]"
    using strip_nonempty [of code]
    by (simp add: validate_and_fix_go_code_def on_exception_def)
next
  assume "strip code \<noteq> [] \<and> tool mn code = Completed out err rc \<and> strip out = [] \<and> rc \<noteq> 0"
  then show "\<exists>r. validate_and_fix_go_code loads tool code mn = Inr r
               \<and> has_errors r \<and> errors r = [ValidationFailed rc] \<and> total_errors r = 1"
    using strip_nonempty [of code]
    by (simp add: validate_and_fix_go_code_def lint_output_def compile_results_def
                  initial_result_def)
next
  assume a: "strip code \<noteq> [] \<and> tool mn code = Completed out err rc \<and> strip out \<noteq> []
            \<and> (strip out = ''null'' \<or> strip out = ''{}''
                 \<or> loads (strip out) = Inl JSONDecodeError)"
  then have "lint_output loads out rc (initial_result mn) = (initial_result mn, Inr 0)"
    using strip_nonempty [of out] by (auto simp: lint_output_def Let_def)
  with a show "\<exists>r. validate_and_fix_go_code loads tool code mn = Inr r
               \<and> \<not> has_errors r \<and> errors r = [] \<and> total_errors r = 0
               \<and> quality_score r = 1.0 \<and> validation_passed r"
    using strip_nonempty [of code]
    by (simp add: validate_and_fix_go_code_def compile_results_def initial_result_def)
next
  assume "strip code \<noteq> [] \<and> tool mn code = Completed out err rc \<and> strip out = [] \<and> rc = 0"
  then show "\<exists>r. validate_and_fix_go_code loads tool code mn = Inr r
               \<and> \<not> has_errors r \<and> errors r = [] \<and> total_errors r = 0
               \<and> quality_score r = 1.0 \<and> validation_passed r"
    using strip_nonempty [of code]
    by (simp add: validate_and_fix_go_code_def lint_output_def compile_results_def
                  initial_result_def)
qed

theorem validator_failure_reports_witness:
  "(\<exists>r. validate_and_fix_go_code no_json tool_times_out ''package main'' ''m'' = Inr r
        \<and> has_errors r \<and> errors r = [ValidationError TimeoutExpired])
   \<and> (\<exists>r. validate_and_fix_go_code null_text_json (tool_prints ''<lint report>'')
             ''package main'' ''m'' = Inr r
        \<and> has_errors r
        \<and> errors r = [LintLine (JInt 3) ''main.go:3:2: undefined: x'' (JStr ''unknown''),
                       ValidationError AttributeError])
   \<and> (\<exists>r. validate_and_fix_go_code no_json (tool_exits 2) ''package main'' ''m'' = Inr r
        \<and> has_errors r \<and> errors r = [ValidationFailed 2] \<and> total_errors r = 1)
   \<and> (\<exists>r. validate_and_fix_go_code no_json (tool_ends ''Segmentation fault'' 139)
             ''package main'' ''m'' = Inr r
        \<and> \<not> has_errors r \<and> errors r = [] \<and> total_errors r = 0 \<and> quality_score r = 1.0)
   \<and> (\<exists>r. validate_and_fix_go_code one_issue_json (tool_ends ''{}'' 139)
             ''package main'' ''m'' = Inr r
        \<and> \<not> has_errors r \<and> errors r = [] \<and> total_errors r = 0 \<and> quality_score r = 1.0)
   \<and> (\<exists>r. validate_and_fix_go_code no_json (tool_exits 0) ''package main'' ''m'' = Inr r
        \<and> \<not> has_errors r \<and> errors r = [] \<and> total_errors r = 0 \<and> quality_score r = 1.0)"
proof -
  have c: "strip ''package main'' \<noteq> []" by code_simp
  have t: "tool_times_out ''m'' ''package main'' = RunRaised TimeoutExpired"
    by (simp add: tool_times_out_def)
  have nm: "\<forall>e. tool_times_out ''m'' ''package main'' \<noteq> MkdtempRaised e"
    by (simp add: tool_times_out_def)
  have p: "tool_prints ''<lint report>'' ''m'' ''package main''
             = Completed ''<lint report>'' [] 0"
    by (simp add: tool_prints_def)
  have l: "lint_output null_text_json ''<lint report>'' 0 (initial_result ''m'')
             = ((initial_result ''m'')
                  \<lparr>errors := [LintLine (JInt 3) ''main.go:3:2: undefined: x'' (JStr ''unknown'')],
                   stage_details :=
                     [LintLine (JInt 3) ''main.go:3:2: undefined: x'' (JStr ''unknown'')]\<rparr>,
                Inl AttributeError)"
    by code_simp
  have x: "tool_exits 2 ''m'' ''package main'' = Completed [] [] 2"
    by (simp add: tool_exits_def)
  have x0: "tool_exits 0 ''m'' ''package main'' = Completed [] [] 0"
    by (simp add: tool_exits_def)
  have g: "tool_ends ''Segmentation fault'' 139 ''m'' ''package main''
             = Completed ''Segmentation fault'' [] 139"
    by (simp add: tool_ends_def)
  have g2: "tool_ends ''{}'' 139 ''m'' ''package main'' = Completed ''{}'' [] 139"
    by (simp add: tool_ends_def)
  have s: "strip ''Segmentation fault'' = ''Segmentation fault''" by code_simp
  have s2: "strip ''{}'' = ''{}''" by code_simp
  have s0: "strip [] = []" by code_simp
  have n: "no_json ''Segmentation fault'' = Inl JSONDecodeError" by (simp add: no_json_def)
  note w1 = validator_failure_reports
      [where tool = tool_times_out and mn = "''m''" and code = "''package main''"
         and loads = no_json and e = TimeoutExpired]
  note w2 = validator_failure_reports
      [where tool = "tool_prints ''<lint report>''" and mn = "''m''"
         and code = "''package main''" and loads = null_text_json
         and out = "''<lint report>''" and err = "[]" and rc = 0 and e = AttributeError
         and vr = "(initial_result ''m'')
                  \<lparr>errors := [LintLine (JInt 3) ''main.go:3:2: undefined: x'' (JStr ''unknown'')],
                   stage_details :=
                     [LintLine (JInt 3) ''main.go:3:2: undefined: x'' (JStr ''unknown'')]\<rparr>"]
  note w3 = validator_failure_reports
      [where tool = "tool_exits 2" and mn = "''m''" and code = "''package main''"
         and loads = no_json and out = "[]" and err = "[]" and rc = 2]
  note w4 = validator_failure_reports
      [where tool = "tool_ends ''Segmentation fault'' 139" and mn = "''m''"
         and code = "''package main''" and loads = no_json
         and out = "''Segmentation fault''" and err = "[]" and rc = 139
         and e = TimeoutExpired and vr = "initial_result ''m''"]
  note w5 = validator_failure_reports
      [where tool = "tool_ends ''{}'' 139" and mn = "''m''"
         and code = "''package main''" and loads = one_issue_json
         and out = "''{}''" and err = "[]" and rc = 139
         and e = TimeoutExpired and vr = "initial_result ''m''"]
  note w6 = validator_failure_reports
      [where tool = "tool_exits 0" and mn = "''m''" and code = "''package main''"
         and loads = no_json and out = "[]" and err = "[]" and rc = 0
         and e = TimeoutExpired and vr = "initial_result ''m''"]
  have r1: "\<exists>r. validate_and_fix_go_code no_json tool_times_out ''package main'' ''m'' = Inr r
        \<and> has_errors r \<and> errors r = [ValidationError TimeoutExpired]"
    using w1 c t nm by blast
  have r2: "\<exists>r. validate_and_fix_go_code null_text_json (tool_prints ''<lint report>'')
             ''package main'' ''m'' = Inr r
        \<and> has_errors r
        \<and> errors r = [LintLine (JInt 3) ''main.go:3:2: undefined: x'' (JStr ''unknown''),
                       ValidationError AttributeError]"
    using w2 c p l by simp
  have r3: "\<exists>r. validate_and_fix_go_code no_json (tool_exits 2) ''package main'' ''m'' = Inr r
        \<and> has_errors r \<and> errors r = [ValidationFailed 2] \<and> total_errors r = 1"
    using w3 c x s0 by simp
  have r4: "\<exists>r. validate_and_fix_go_code no_json (tool_ends ''Segmentation fault'' 139)
             ''package main'' ''m'' = Inr r
        \<and> \<not> has_errors r \<and> errors r = [] \<and> total_errors r = 0 \<and> quality_score r = 1.0"
    using w4 c g s n by auto
  have r5: "\<exists>r. validate_and_fix_go_code one_issue_json (tool_ends ''{}'' 139)
             ''package main'' ''m'' = Inr r
        \<and> \<not> has_errors r \<and> errors r = [] \<and> total_errors r = 0 \<and> quality_score r = 1.0"
    using w5 c g2 s2 by auto
  have r6: "\<exists>r. validate_and_fix_go_code no_json (tool_exits 0) ''package main'' ''m'' = Inr r
        \<and> \<not> has_errors r \<and> errors r = [] \<and> total_errors r = 0 \<and> quality_score r = 1.0"
    using w6 c x0 s0 by auto
  from r1 r2 r3 r4 r5 r6 show ?thesis by blast
qed

text \<open>
  C3 as stated fails on a tool crash and on unparsable output: the process ends with
  exit code 139 and prints text that \<open>json.loads\<close> rejects, and the report says
  \<open>has_errors = False\<close> with no issue at all.
\<close>

theorem validator_failure_reports_counterexample:
  "\<not> isl (validate_and_fix_go_code no_json (tool_ends ''Segmentation fault'' 139)
            ''package main'' ''m'')
   \<and> \<not> has_errors
         (projr (validate_and_fix_go_code no_json (tool_ends ''Segmentation fault'' 139)
                   ''package main'' ''m''))
   \<and> errors
         (projr (validate_and_fix_go_code no_json (tool_ends ''Segmentation fault'' 139)
                   ''package main'' ''m''))
       = []"
proof -
  have "validate_and_fix_go_code no_json (tool_ends ''Segmentation fault'' 139)
          ''package main'' ''m''
     = Inr (compile_results (initial_result ''m'') 0 ''package main'')"
    by code_simp
  then show ?thesis by (simp add: compile_results_def initial_result_def)
qed

text \<open>
  C10. With \<open>language = 'auto'\<close>, code that does not contain both \<open>package \<close> and \<open>func \<close>
  gets the fixed report (score 0.5, no error, count 0, passed, \<open>fixed_code\<close> the input),
  whatever its content. The report is the same for every tool and every \<open>json.loads\<close>:
  the external validator is not consulted.
\<close>

theorem validate_code_not_go:
  assumes "\<not> (str_in ''package '' code \<and> str_in ''func '' code)"
  shows "validate_code loads tool code ''auto'' mn =
           Inr \<lparr>quality_score = 0.5, has_errors = False, errors = [],
                golangci_lint_errors = 0, total_errors = 0, validation_passed = True,
                model_name = mn, fixed_code = Some code, was_fixed = False,
                stage_details = []\<rparr>"
  using assms by (auto simp: validate_code_def unsupported_result_def)

theorem validate_code_not_go_witness:
  "validate_code no_json tool_times_out ''print(1)'' ''auto'' ''m'' =
     Inr \<lparr>quality_score = 0.5, has_errors = False, errors = [],
          golangci_lint_errors = 0, total_errors = 0, validation_passed = True,
          model_name = ''m'', fixed_code = Some ''print(1)'', was_fixed = False,
          stage_details = []\<rparr>"
proof -
  have a: "\<not> (str_in ''package '' ''print(1)'' \<and> str_in ''func '' ''print(1)'')"
    by code_simp
  show ?thesis by (rule validate_code_not_go [OF a])
qed

section \<open>Facts about the text functions\<close>

lemma count_loop_filter:
  "count_loop ls k =
     k + length (filter looks_like_error
                  (filter (\<lambda>l. l \<noteq> [] \<and> \<not> startswith l ''#'') (map strip ls)))"
  by (induction ls arbitrary: k) (simp_all add: Let_def)

lemma split_nl_nonempty: "split_nl s \<noteq> []"
  by (induction s) (auto split: list.splits)

lemma join_split: "join_nl (split_nl s) = s"
proof (induction s)
  case Nil
  show ?case by simp
next
  case (Cons c s)
  show ?case
  proof (cases "split_nl s")
    case Nil
    with split_nl_nonempty show ?thesis by blast
  next
    case (Cons l ls)
    with Cons.IH show ?thesis by (cases ls) auto
  qed
qed

lemma fence6go_fence3: "startswith x fence6go \<Longrightarrow> startswith x fence3"
proof -
  assume a: "startswith x fence6go"
  have "take 3 (take 8 x) = take 3 fence6go"
    using a by (simp add: startswith_def fence6go_def)
  then show ?thesis by (simp add: startswith_def fence3_def fence6go_def)
qed

lemma find_start_none:
  "\<forall>l\<in>set ls. \<not> startswith (strip l) fence6go \<and> \<not> startswith (strip l) ''package ''
     \<Longrightarrow> find_start ls i = 0"
  by (induction ls arbitrary: i) (simp_all add: Let_def)

lemma find_end_none:
  "\<forall>l\<in>set lines. \<not> startswith (strip l) fence3 \<Longrightarrow> k \<le> length lines
     \<Longrightarrow> find_end lines st k = length lines"
  by (induction k) simp_all

lemma fence_line: "strip l \<in> set [fence3, fence6go] \<Longrightarrow> startswith (strip l) fence3"
  by (auto simp: startswith_def fence3_def fence6go_def)

text \<open>
  C4, as the code has it. \<open>count_error_lines\<close> returns 0 for the empty text. For any other
  text it strips the text, splits it at newlines, strips each sub-line, skips the blank
  ones and those beginning with \<open>#\<close>, counts a sub-line exactly when it contains \<open>.go:\<close>,
  or \<open>undefined\<close> or \<open>not used\<close> in this very spelling, or \<open>error\<close> in any letter case,
  and returns the count, or 1 when the count is 0.
\<close>

theorem count_error_lines_counts:
  "count_error_lines t =
     (if t = [] then 0
      else max 1 (length
        (filter (\<lambda>l. str_in ''.go:'' l \<or> str_in ''undefined'' l \<or> str_in ''not used'' l
                     \<or> str_in ''error'' (lower l))
          (filter (\<lambda>l. l \<noteq> [] \<and> \<not> startswith l ''#'')
            (map strip (split_nl (strip t)))))))"
proof -
  have "looks_like_error =
          (\<lambda>l. str_in ''.go:'' l \<or> str_in ''undefined'' l \<or> str_in ''not used'' l
                \<or> str_in ''error'' (lower l))"
    by (auto simp: looks_like_error_def fun_eq_iff)
  then show ?thesis
    by (simp add: count_error_lines_def count_loop_filter max.commute)
qed

theorem count_error_lines_counts_witness:
  "count_error_lines
     (''# temp/validation'' @ [nl] @ ''./main.go:3:2: undefined: x'' @ [nl] @ ''   '' @ [nl]
        @ ''declared and not used'' @ [nl] @ ''An ERROR'' @ [nl] @ ''note'') = 3"
  by (subst count_error_lines_counts) code_simp

text \<open>
  C4 as stated fails twice: the empty text counts as 0 issues, not 1; and two sub-lines
  that contain \<open>undefined\<close> in another letter case are not counted as two issues.
\<close>

theorem count_error_lines_counts_counterexample:
  "count_error_lines [] = 0
   \<and> str_in ''undefined'' (lower ''Undefined: a'')
   \<and> str_in ''undefined'' (lower ''UNDEFINED: b'')
   \<and> count_error_lines (''Undefined: a'' @ [nl] @ ''UNDEFINED: b'') = 1"
  by code_simp

text \<open>
  C9, as the code has it. For a text in which no line, stripped, begins with three
  backquotes and no line after the first, stripped, begins with \<open>package \<close>, the cleaner
  returns the text stripped of surrounding whitespace (a blank text as it is); so it
  returns the text unchanged when the text has no surrounding whitespace.
\<close>

theorem clean_fence_free:
  assumes "\<forall>l\<in>set (split_nl s). \<not> startswith (strip l) fence3"
    and "\<forall>l\<in>set (tl (split_nl s)). \<not> startswith (strip l) ''package ''"
  shows "clean_code_artifacts s = (if strip s = [] then s else strip s)
       \<and> (strip s = s \<longrightarrow> clean_code_artifacts s = s)"
proof -
  obtain l ls where sp: "split_nl s = l # ls"
    using split_nl_nonempty [of s] by (cases "split_nl s") auto
  have nf6: "\<forall>l\<in>set (split_nl s). \<not> startswith (strip l) fence6go"
    using assms(1) fence6go_fence3 by blast
  have st: "find_start (split_nl s) 0 = 0"
    using nf6 assms(2) find_start_none [of ls 1] by (simp add: sp Let_def)
  have en: "find_end (split_nl s) 0 (length (split_nl s)) = length (split_nl s)"
    using assms(1) by (simp add: find_end_none)
  have fl: "filter (\<lambda>line. strip line \<notin> set [fence3, fence6go]) (split_nl s) = split_nl s"
    using assms(1) fence_line by (auto simp: filter_id_conv)
  have main: "clean_code_artifacts s = (if strip s = [] then s else strip s)"
  proof (cases "s = [] \<or> strip s = []")
    case True
    then show ?thesis by (auto simp: clean_code_artifacts_def strip_def)
  next
    case False
    then have "clean_code_artifacts s = strip s"
      unfolding clean_code_artifacts_def Let_def st en
      by (simp only: fl join_split drop_0 take_all order_refl if_False if_True
                     not_False_eq_True if_cancel)
    with False show ?thesis by simp
  qed
  then show ?thesis by auto
qed

theorem clean_fence_free_witness:
  "clean_code_artifacts (''package main'' @ [nl] @ [nl] @ ''func main() {}'')
     = ''package main'' @ [nl] @ [nl] @ ''func main() {}''"
proof -
  have a: "\<forall>l\<in>set (split_nl (''package main'' @ [nl] @ [nl] @ ''func main() {}'')).
             \<not> startswith (strip l) fence3"
    by code_simp
  have b: "\<forall>l\<in>set (tl (split_nl (''package main'' @ [nl] @ [nl] @ ''func main() {}''))).
             \<not> startswith (strip l) ''package ''"
    by code_simp
  have c: "strip (''package main'' @ [nl] @ [nl] @ ''func main() {}'')
             = ''package main'' @ [nl] @ [nl] @ ''func main() {}''"
    by code_simp
  show ?thesis using clean_fence_free [OF a b] c by blast
qed

text \<open>
  C9 as stated fails on texts without any backquote: surrounding whitespace is
  stripped, and the lines before a line that begins with \<open>package \<close> are dropped.
\<close>

theorem clean_fence_free_counterexample:
  "\<not> str_in [CHR 0x60] (''// generated'' @ [nl] @ ''package main'')
   \<and> clean_code_artifacts (''// generated'' @ [nl] @ ''package main'') = ''package main''
   \<and> \<not> str_in [CHR 0x60] ''  x := 1''
   \<and> clean_code_artifacts ''  x := 1'' = ''x := 1''"
  by code_simp

section \<open>The generator\<close>

text \<open>
  Against the scripted backend (\<open>length\<close> on the calls before call \<open>b\<close>, \<open>stop\<close> on call \<open>b\<close>),
  a loop that has made \<open>k < b\<close> calls goes on to make exactly \<open>b\<close>, and has seen a
  truncation when it already had or when call \<open>k + 1\<close> is not the last.
\<close>

lemma gen_loop_scripted:
  assumes len: "\<forall>k sys usr. 1 \<le> k \<and> k < b \<longrightarrow>
             (\<exists>chunk tokens. reply k sys usr =
                Inr \<lparr>content = Some chunk, finish_reason = Some ''length'',
                     usage_total_tokens = Some tokens\<rparr>)"
    and stop: "\<forall>sys usr. \<exists>chunk tokens. reply b sys usr =
                Inr \<lparr>content = Some chunk, finish_reason = Some ''stop'',
                     usage_total_tokens = Some tokens\<rparr>"
  shows "k < b \<Longrightarrow>
         gen_loop (counted reply) (int b) (int k) fr md cs cu k = (fr', md', s') \<Longrightarrow>
         s' = b \<and> iterations md' = int b
         \<and> (was_truncated md' \<longleftrightarrow> was_truncated md \<or> Suc k < b)"
proof (induction "b - k" arbitrary: k fr md cs cu)
  case 0
  then show ?case by simp
next
  case (Suc d)
  show ?case
  proof (cases "Suc k < b")
    case True
    then obtain chunk tokens where r: "reply (Suc k) cs cu =
        Inr \<lparr>content = Some chunk, finish_reason = Some ''length'',
             usage_total_tokens = Some tokens\<rparr>"
      using len by (metis Suc_le_mono le0 One_nat_def)
    have d: "d = b - Suc k" using Suc.hyps(2) by simp
    have step: "gen_loop (counted reply) (int b) (int k) fr md cs cu k =
        gen_loop (counted reply) (int b) (int (Suc k)) (fr @ chunk)
           (md\<lparr>iterations := int k + 1,
                finish_reasons := finish_reasons md @ [Some ''length''],
                total_tokens := total_tokens md + tokens,
                was_truncated := True\<rparr>)
           continuation_system (continuation_user (fr @ chunk)) (Suc k)"
      using Suc.prems(1) r by (subst gen_loop.simps) (simp add: counted_def add.commute)
    from Suc.hyps(1) [OF d True Suc.prems(2) [unfolded step]] True
    show ?thesis by simp
  next
    case False
    with Suc.prems(1) have kb: "Suc k = b" by simp
    obtain chunk tokens where r: "reply (Suc k) cs cu =
        Inr \<lparr>content = Some chunk, finish_reason = Some ''stop'',
             usage_total_tokens = Some tokens\<rparr>"
      using stop kb by blast
    have "gen_loop (counted reply) (int b) (int k) fr md cs cu k =
        (fr @ chunk,
         md\<lparr>iterations := int k + 1,
            finish_reasons := finish_reasons md @ [Some ''stop''],
            total_tokens := total_tokens md + tokens\<rparr>, Suc k)"
      using Suc.prems(1) r by (subst gen_loop.simps) (simp add: counted_def add.commute)
    with Suc.prems(2) kb show ?thesis by auto
  qed
qed

text \<open>
  C8, as the code has it. With \<open>max_iterations = b \<ge> 1\<close> and a backend that answers
  \<open>length\<close> on calls 1 to \<open>b - 1\<close> and \<open>stop\<close> on call \<open>b\<close>, the generator makes exactly \<open>b\<close>
  backend calls and reports \<open>iterations = b\<close>; \<open>was_truncated\<close> is true exactly when
  \<open>b \<ge> 2\<close>, that is when at least one answer was truncated.
\<close>

theorem continuation_calls:
  assumes "1 \<le> b"
    and "\<forall>k sys usr. 1 \<le> k \<and> k < b \<longrightarrow>
             (\<exists>chunk tokens. reply k sys usr =
                Inr \<lparr>content = Some chunk, finish_reason = Some ''length'',
                     usage_total_tokens = Some tokens\<rparr>)"
    and "\<forall>sys usr. \<exists>chunk tokens. reply b sys usr =
                Inr \<lparr>content = Some chunk, finish_reason = Some ''stop'',
                     usage_total_tokens = Some tokens\<rparr>"
  shows "\<exists>text md. generate_with_continuation (counted reply) (int b)
                      system_prompt user_prompt 0 = ((text, md), b)
           \<and> iterations md = int b \<and> (was_truncated md \<longleftrightarrow> 2 \<le> b)"
proof -
  obtain fr md s where g: "gen_loop (counted reply) (int b) (int 0) [] initial_metadata
                              system_prompt user_prompt 0 = (fr, md, s)"
    by (metis prod_cases3)
  from assms(1) have "0 < b" by simp
  from gen_loop_scripted [OF assms(2,3) this g]
  have "s = b \<and> iterations md = int b \<and> (was_truncated md \<longleftrightarrow> 2 \<le> b)"
    by (auto simp: initial_metadata_def)
  with g show ?thesis by (simp add: generate_with_continuation_def)
qed

theorem continuation_calls_witness:
  "\<exists>text md. generate_with_continuation (counted (truncating 3)) 3 ''system'' ''user'' 0
       = ((text, md), 3) \<and> iterations md = 3 \<and> was_truncated md"
proof -
  have a: "1 \<le> (3::nat)" by simp
  have b: "\<forall>k sys usr. 1 \<le> k \<and> k < 3 \<longrightarrow>
             (\<exists>chunk tokens. truncating 3 k sys usr =
                Inr \<lparr>content = Some chunk, finish_reason = Some ''length'',
                     usage_total_tokens = Some tokens\<rparr>)"
    by (simp add: truncating_def)
  have c: "\<forall>sys usr. \<exists>chunk tokens. truncating 3 3 sys usr =
                Inr \<lparr>content = Some chunk, finish_reason = Some ''stop'',
                     usage_total_tokens = Some tokens\<rparr>"
    by (simp add: truncating_def)
  show ?thesis
    using continuation_calls [OF a b c, of "''system''" "''user''"] by simp
qed

text \<open>
  C8 as stated fails for the budget 1: the only call answers \<open>stop\<close>, one call is made,
  and \<open>was_truncated\<close> stays \<open>False\<close>.
\<close>

theorem continuation_calls_counterexample:
  "generate_with_continuation (counted (truncating 1)) 1 ''system'' ''user'' 0
     = ((''x'', \<lparr>iterations = 1, finish_reasons = [Some ''stop''], total_tokens = 1,
                 was_truncated = False, gen_error = None\<rparr>), 1)"
  by code_simp


section \<open>The refinement loop\<close>












section \<open>Scoring and ranking\<close>

text \<open>Every report of the validator carries a score between 0 and 1.\<close>

lemma compile_results_quality:
  "0 \<le> quality_score (compile_results vr n code) \<and> quality_score (compile_results vr n code) \<le> 1"
  by (simp add: compile_results_def Let_def max_def)

lemma validate_code_quality:
  assumes "validate_code loads tool code language mn = Inr sv"
  shows "0 \<le> quality_score sv \<and> quality_score sv \<le> 1"
proof (cases "validate_code loads tool code language mn = validate_and_fix_go_code loads tool code mn")
  case True
  with assms have "validate_and_fix_go_code loads tool code mn = Inr sv" by simp
  from validate_cases [OF this] show ?thesis
    using compile_results_quality by auto
next
  case False
  with assms have "sv = unsupported_result code mn"
    by (auto simp: validate_code_def Let_def split: if_splits)
  then show ?thesis by (simp add: unsupported_result_def)
qed

text \<open>
  C5. The combined score of a candidate is
  \<open>0.70 * q + 0.10 * max(0.0, 1.0 - d/30) + 0.20 * min(L/3000, 1.0)\<close> for its quality
  score \<open>q\<close> (0.0 without a report), duration \<open>d\<close> and response length \<open>L\<close>. For a
  duration that is not negative and a report that the validator produced (so that \<open>q\<close>
  comes from an issue count, or is the fixed 0.5 or 0.0), the score lies between 0.0 and
  1.0. Scores are real numbers here.
\<close>

theorem combined_score_bounds:
  assumes "0 \<le> duration r"
    and "static_validation r = None
         \<or> (\<exists>loads tool code language mn sv.
               static_validation r = Some sv
               \<and> validate_code loads tool code language mn = Inr sv)"
  shows "get_combined_score r =
           0.70 * candidate_quality r
           + 0.10 * max 0.0 (1.0 - duration r / 30)
           + 0.20 * min (real (response_length r) / 3000) 1.0
       \<and> 0.0 \<le> get_combined_score r \<and> get_combined_score r \<le> 1.0"
proof -
  have q: "0 \<le> candidate_quality r \<and> candidate_quality r \<le> 1"
    using assms(2) validate_code_quality
    by (auto simp: candidate_quality_def)
  have eq: "get_combined_score r =
           0.70 * candidate_quality r
           + 0.10 * max 0.0 (1.0 - duration r / 30)
           + 0.20 * min (real (response_length r) / 3000) 1.0"
    by (simp add: get_combined_score_def candidate_quality_def Let_def)
  have t: "0 \<le> max 0.0 (1.0 - duration r / 30) \<and> max 0.0 (1.0 - duration r / 30) \<le> 1"
    using assms(1) by (simp add: max_def)
  have c: "0 \<le> min (real (response_length r) / 3000) 1.0
           \<and> min (real (response_length r) / 3000) 1.0 \<le> 1"
    by (simp add: min_def)
  define q' where "q' = candidate_quality r"
  define t' where "t' = max 0.0 (1.0 - duration r / 30)"
  define c' where "c' = min (real (response_length r) / 3000) 1.0"
  from q t c have b: "0 \<le> q'" "q' \<le> 1" "0 \<le> t'" "t' \<le> 1" "0 \<le> c'" "c' \<le> 1"
    by (simp_all add: q'_def t'_def c'_def)
  have "0 \<le> 0.70 * q' + 0.10 * t' + 0.20 * c'" using b by simp
  moreover have "0.70 * q' + 0.10 * t' + 0.20 * c' \<le> 1" using b by simp
  ultimately show ?thesis using eq unfolding q'_def t'_def c'_def by simp
qed

theorem combined_score_bounds_witness:
  "0 \<le> duration scored_candidate
   \<and> candidate_quality scored_candidate = 0.92
   \<and> get_combined_score scored_candidate = 0.794
   \<and> 0.0 \<le> get_combined_score scored_candidate
   \<and> get_combined_score scored_candidate \<le> 1.0"
proof -
  have d: "0 \<le> duration scored_candidate" by (simp add: scored_candidate_def)
  have "\<not> isl (validate_code one_issue_json (tool_prints ''<lint report>'')
                  ''package main func main() {}'' ''auto'' ''m'')"
    by code_simp
  then have v: "validate_code one_issue_json (tool_prints ''<lint report>'')
                  ''package main func main() {}'' ''auto'' ''m''
                = Inr (projr (validate_code one_issue_json (tool_prints ''<lint report>'')
                         ''package main func main() {}'' ''auto'' ''m''))"
    by (simp add: sum.collapse(2))
  have s: "static_validation scored_candidate
             = Some (projr (validate_code one_issue_json (tool_prints ''<lint report>'')
                         ''package main func main() {}'' ''auto'' ''m''))"
    by (simp add: scored_candidate_def static_validation_def)
  have q: "candidate_quality scored_candidate = 0.92"
    by code_simp
  have h: "static_validation scored_candidate = None
         \<or> (\<exists>loads tool code language mn sv.
               static_validation scored_candidate = Some sv
               \<and> validate_code loads tool code language mn = Inr sv)"
    using s v by blast
  from combined_score_bounds [OF d h] d q show ?thesis
    by (simp add: scored_candidate_def)
qed




section \<open>The fan-out under a failing backend\<close>














end
